theory Spec2Isabelle
  imports Main "HOL-Library.Char_ord" "HOL-Library.List_Lexorder" "HOL-Library.Word"
begin

section \<open>Data model\<close>

text \<open>
  A JSON value, as \<^verbatim>\<open>JSON.parse\<close> returns it. Numbers are integers in this model.
\<close>

datatype json = JNull | JBool bool | JNum int | JStr string
  | JArr "json list" | JObj "(string \<times> json) list"

text \<open>
  \<^verbatim>\<open>interface SupabaseBook\<close> (bookService.ts). A \<^verbatim>\<open>number\<close> is an integer here,
  \<^verbatim>\<open>T | null\<close> is an option, and the three fields that travel as JSON text
  (\<^verbatim>\<open>highlighted_words\<close>, \<^verbatim>\<open>difficult_words\<close>, \<^verbatim>\<open>vocab_mastery\<close>) hold a JSON value, which
  is what they hold at run time. The books table has no \<^verbatim>\<open>is_crafted\<close> column, so an object
  read back from the table has no such property: \<open>is_crafted = None\<close> is that missing property.
\<close>

record SupabaseBook =
  id' :: string
  title :: string
  author :: string
  content_url :: string
  cover_image :: string
  narration_url :: "string option"
  podcast_url :: "string option"
  content_category :: string
  current_page :: int
  total_pages :: int
  last_read :: "string option"
  narration_status :: "string option"
  podcast_status :: "string option"
  highlighted_words :: json
  difficult_words :: json
  vocab_mastery :: json
  read_progress :: int
  audio_progress :: "int option"
  book_language :: string
  is_favorite :: bool
  is_offline :: bool
  synced_with_supabase :: bool
  is_crafted :: "bool option"
  created_at :: string
  updated_at :: string

text \<open>\<^verbatim>\<open>interface LocalBook extends SupabaseBook\<close> (localStorageService.ts).\<close>

record LocalBook = SupabaseBook +
  is_manual :: bool
  cache_expiry :: string
  local_content_path :: "string option"
  local_narration_path :: "string option"
  local_podcast_path :: "string option"

text \<open>What a service call can throw.\<close>

datatype exn =
    Error string    \<comment> \<open>\<^verbatim>\<open>new Error(message)\<close> thrown by the services themselves\<close>
  | SqlError        \<comment> \<open>the storage engine rejected a statement\<close>
  | FetchError      \<comment> \<open>\<^verbatim>\<open>fetch\<close> rejected\<close>
  | FileError       \<comment> \<open>\<^verbatim>\<open>Filesystem.readFile\<close> rejected\<close>

section \<open>The storage engine behind \<^verbatim>\<open>SQLiteDB\<close>\<close>

text \<open>
  A value bound to a statement or found in a result row. \<open>SqlJsonText j\<close> is the text
  \<^verbatim>\<open>JSON.stringify\<close> gives for \<open>j\<close>; such a text is never empty.
\<close>

datatype sqlval = SqlNull | SqlInt int | SqlText string | SqlJsonText json

text \<open>
  The engine either has the books table, with its rows in rowid order, or (when
  \<^verbatim>\<open>createTables\<close> failed) has none, and then every statement on it throws.
\<close>

datatype database = NoTable | Table "sqlval list list"

text \<open>The columns of \<^verbatim>\<open>CREATE TABLE books\<close>, in order.\<close>

definition books_columns :: "string list" where
  "books_columns =
    [''id'', ''title'', ''author'', ''content_url'', ''cover_image'', ''narration_url'',
     ''podcast_url'', ''content_category'', ''current_page'', ''total_pages'', ''last_read'',
     ''narration_status'', ''podcast_status'', ''highlighted_words'', ''difficult_words'',
     ''vocab_mastery'', ''read_progress'', ''audio_progress'', ''book_language'',
     ''is_favorite'', ''is_offline'', ''is_manual'', ''synced_with_supabase'',
     ''cache_expiry'', ''local_content_path'', ''local_narration_path'',
     ''local_podcast_path'', ''created_at'', ''updated_at'']"

text \<open>\<^verbatim>\<open>row[index]\<close>; past the end of the row JavaScript gives \<^verbatim>\<open>undefined\<close>, read as NULL.\<close>

definition cell :: "sqlval list \<Rightarrow> nat \<Rightarrow> sqlval" where
  "cell row index = (if index < length row then row ! index else SqlNull)"

text \<open>
  What sql.js \<^verbatim>\<open>exec\<close> returns: one \<^verbatim>\<open>{columns, values}\<close> object per statement that produced
  rows, so the empty array when the SELECT finds nothing. This is the shape that
  \<^verbatim>\<open>transformQueryResult\<close> is written for, as its comment says; the handle of the mobile
  branch, which wraps \<^verbatim>\<open>db.query\<close>, is taken to answer in the same shape.
\<close>

type_synonym query_result = "(string list \<times> sqlval list list) list"

definition result_set :: "sqlval list list \<Rightarrow> query_result" where
  "result_set rows = (if rows = [] then [] else [(books_columns, rows)])"

text \<open>\<^verbatim>\<open>SELECT * FROM books\<close>\<close>

definition select_all :: "database \<Rightarrow> exn + query_result" where
  "select_all db = (case db of NoTable \<Rightarrow> Inl SqlError | Table rows \<Rightarrow> Inr (result_set rows))"

text \<open>\<^verbatim>\<open>SELECT * FROM books WHERE id = ?\<close>\<close>

definition select_by_id :: "string \<Rightarrow> database \<Rightarrow> exn + query_result" where
  "select_by_id i db =
     (case db of NoTable \<Rightarrow> Inl SqlError
      | Table rows \<Rightarrow> Inr (result_set (filter (\<lambda>row. cell row 0 = SqlText i) rows)))"

text \<open>
  \<^verbatim>\<open>INSERT OR REPLACE INTO books (...) VALUES (...)\<close>: the row with the same primary key is
  deleted and the new row is appended.
\<close>

definition insert_or_replace :: "sqlval list \<Rightarrow> database \<Rightarrow> exn + database" where
  "insert_or_replace vals db =
     (case db of NoTable \<Rightarrow> Inl SqlError
      | Table rows \<Rightarrow> Inr (Table (filter (\<lambda>row. cell row 0 \<noteq> cell vals 0) rows @ [vals])))"

text \<open>\<^verbatim>\<open>DELETE FROM books WHERE id = ?\<close>\<close>

definition delete_by_id :: "string \<Rightarrow> database \<Rightarrow> exn + database" where
  "delete_by_id i db =
     (case db of NoTable \<Rightarrow> Inl SqlError
      | Table rows \<Rightarrow> Inr (Table (filter (\<lambda>row. cell row 0 \<noteq> SqlText i) rows)))"

section \<open>The state the services work on\<close>

text \<open>
  \<open>sqlite\<close> is the field \<^verbatim>\<open>LocalStorageService.sqlite\<close> (\<open>None\<close> is \<^verbatim>\<open>null\<close>), \<open>files\<close> is the
  \<^verbatim>\<open>Directory.Data\<close> file system of Capacitor, from path to the base64 text written there, and
  \<open>clock\<close> is what \<^verbatim>\<open>Date.now()\<close> reads, in milliseconds.
\<close>

record world =
  sqlite :: "database option"
  files :: "string \<rightharpoonup> string"
  clock :: nat

section \<open>LocalStorageService: the Record Store\<close>

definition opt_text :: "string option \<Rightarrow> sqlval" where
  "opt_text s = (case s of None \<Rightarrow> SqlNull | Some t \<Rightarrow> SqlText t)"

definition opt_int :: "int option \<Rightarrow> sqlval" where
  "opt_int n = (case n of None \<Rightarrow> SqlNull | Some k \<Rightarrow> SqlInt k)"

definition flag :: "bool \<Rightarrow> sqlval" where
  "flag b = SqlInt (if b then 1 else 0)"

text \<open>The array \<^verbatim>\<open>values\<close> of \<^verbatim>\<open>saveBook\<close>.\<close>

definition book_values :: "LocalBook \<Rightarrow> sqlval list" where
  "book_values book =
    [SqlText (id' book),
     SqlText (title book),
     SqlText (author book),
     SqlText (content_url book),
     SqlText (cover_image book),
     opt_text (narration_url book),
     opt_text (podcast_url book),
     SqlText (content_category book),
     SqlInt (current_page book),
     SqlInt (total_pages book),
     opt_text (last_read book),
     opt_text (narration_status book),
     opt_text (podcast_status book),
     SqlJsonText (highlighted_words book),
     SqlJsonText (difficult_words book),
     SqlJsonText (vocab_mastery book),
     SqlInt (read_progress book),
     opt_int (audio_progress book),
     SqlText (book_language book),
     flag (is_favorite book),
     flag (is_offline book),
     flag (is_manual book),
     flag (synced_with_supabase book),
     SqlText (cache_expiry book),
     opt_text (local_content_path book),
     opt_text (local_narration_path book),
     opt_text (local_podcast_path book),
     SqlText (created_at book),
     SqlText (updated_at book)]"

text \<open>\<^verbatim>\<open>await this.sqlite?.run(query, values)\<close>: nothing happens when \<^verbatim>\<open>sqlite\<close> is null.\<close>

definition saveBook :: "LocalBook \<Rightarrow> world \<Rightarrow> (exn + unit) \<times> world" where
  "saveBook book w =
     (case sqlite w of
        None \<Rightarrow> (Inr (), w)
      | Some db \<Rightarrow>
          (case insert_or_replace (book_values book) db of
             Inl e \<Rightarrow> (Inl e, w)
           | Inr db' \<Rightarrow> (Inr (), w\<lparr>sqlite := Some db'\<rparr>)))"

text \<open>JavaScript truthiness of a cell: \<^verbatim>\<open>null\<close>, \<^verbatim>\<open>0\<close> and the empty string are falsy.\<close>

definition truthy :: "sqlval \<Rightarrow> bool" where
  "truthy v = (case v of SqlNull \<Rightarrow> False | SqlInt n \<Rightarrow> n \<noteq> 0 | SqlText s \<Rightarrow> s \<noteq> []
               | SqlJsonText j \<Rightarrow> True)"

text \<open>
  \<^verbatim>\<open>JSON.parse\<close> of a cell; \<open>None\<close> is its SyntaxError. A number is parsed from its decimal
  text. A text that \<^verbatim>\<open>JSON.stringify\<close> did not write is taken as not parseable; \<^verbatim>\<open>saveBook\<close>,
  the only writer of the table, puts no such text in the three JSON columns.
\<close>

definition JSON_parse :: "sqlval \<Rightarrow> json option" where
  "JSON_parse v = (case v of SqlJsonText j \<Rightarrow> Some j | SqlInt n \<Rightarrow> Some (JNum n)
                   | SqlText s \<Rightarrow> None | SqlNull \<Rightarrow> Some JNull)"

text \<open>\<^verbatim>\<open>try { JSON.parse(row[index] || '[]') } catch { [] }\<close>\<close>

definition parse_or_empty :: "sqlval \<Rightarrow> json" where
  "parse_or_empty v =
     (if truthy v then (case JSON_parse v of Some j \<Rightarrow> j | None \<Rightarrow> JArr []) else JArr [])"

text \<open>
  The plain assignment \<^verbatim>\<open>book[col] = row[index]\<close> at a field of the interface. A cell that
  \<^verbatim>\<open>saveBook\<close> wrote has the type of its field; a cell of another type has no value of the
  field's type and is read as the empty string, zero or null.
\<close>

definition as_string :: "sqlval \<Rightarrow> string" where
  "as_string v = (case v of SqlText s \<Rightarrow> s | _ \<Rightarrow> [])"

definition as_string_opt :: "sqlval \<Rightarrow> string option" where
  "as_string_opt v = (case v of SqlText s \<Rightarrow> Some s | _ \<Rightarrow> None)"

definition as_int :: "sqlval \<Rightarrow> int" where
  "as_int v = (case v of SqlInt n \<Rightarrow> n | _ \<Rightarrow> 0)"

definition as_int_opt :: "sqlval \<Rightarrow> int option" where
  "as_int_opt v = (case v of SqlInt n \<Rightarrow> Some n | _ \<Rightarrow> None)"

definition set_json :: "string \<Rightarrow> json \<Rightarrow> LocalBook \<Rightarrow> LocalBook" where
  "set_json col j book =
     (if col = ''highlighted_words'' then book\<lparr>highlighted_words := j\<rparr>
      else if col = ''difficult_words'' then book\<lparr>difficult_words := j\<rparr>
      else book\<lparr>vocab_mastery := j\<rparr>)"

definition set_bool :: "string \<Rightarrow> bool \<Rightarrow> LocalBook \<Rightarrow> LocalBook" where
  "set_bool col b book =
     (if col = ''is_favorite'' then book\<lparr>is_favorite := b\<rparr>
      else if col = ''is_offline'' then book\<lparr>is_offline := b\<rparr>
      else if col = ''is_manual'' then book\<lparr>is_manual := b\<rparr>
      else book\<lparr>synced_with_supabase := b\<rparr>)"

text \<open>A column that is no field of the interface adds a property that no code reads.\<close>

definition set_plain :: "string \<Rightarrow> sqlval \<Rightarrow> LocalBook \<Rightarrow> LocalBook" where
  "set_plain col v book =
     (if col = ''id'' then book\<lparr>id' := as_string v\<rparr>
      else if col = ''title'' then book\<lparr>title := as_string v\<rparr>
      else if col = ''author'' then book\<lparr>author := as_string v\<rparr>
      else if col = ''content_url'' then book\<lparr>content_url := as_string v\<rparr>
      else if col = ''cover_image'' then book\<lparr>cover_image := as_string v\<rparr>
      else if col = ''narration_url'' then book\<lparr>narration_url := as_string_opt v\<rparr>
      else if col = ''podcast_url'' then book\<lparr>podcast_url := as_string_opt v\<rparr>
      else if col = ''content_category'' then book\<lparr>content_category := as_string v\<rparr>
      else if col = ''current_page'' then book\<lparr>current_page := as_int v\<rparr>
      else if col = ''total_pages'' then book\<lparr>total_pages := as_int v\<rparr>
      else if col = ''last_read'' then book\<lparr>last_read := as_string_opt v\<rparr>
      else if col = ''narration_status'' then book\<lparr>narration_status := as_string_opt v\<rparr>
      else if col = ''podcast_status'' then book\<lparr>podcast_status := as_string_opt v\<rparr>
      else if col = ''read_progress'' then book\<lparr>read_progress := as_int v\<rparr>
      else if col = ''audio_progress'' then book\<lparr>audio_progress := as_int_opt v\<rparr>
      else if col = ''book_language'' then book\<lparr>book_language := as_string v\<rparr>
      else if col = ''cache_expiry'' then book\<lparr>cache_expiry := as_string v\<rparr>
      else if col = ''local_content_path'' then book\<lparr>local_content_path := as_string_opt v\<rparr>
      else if col = ''local_narration_path'' then book\<lparr>local_narration_path := as_string_opt v\<rparr>
      else if col = ''local_podcast_path'' then book\<lparr>local_podcast_path := as_string_opt v\<rparr>
      else if col = ''created_at'' then book\<lparr>created_at := as_string v\<rparr>
      else if col = ''updated_at'' then book\<lparr>updated_at := as_string v\<rparr>
      else book)"

text \<open>The body of \<^verbatim>\<open>columns.forEach((col, index) => ...)\<close> in \<^verbatim>\<open>transformQueryResult\<close>.\<close>

definition set_column :: "sqlval list \<Rightarrow> string \<times> nat \<Rightarrow> LocalBook \<Rightarrow> LocalBook" where
  "set_column row ci book =
     (let col = fst ci; index = snd ci in
      if col \<in> set [''highlighted_words'', ''difficult_words'', ''vocab_mastery'']
      then set_json col (parse_or_empty (cell row index)) book
      else if col \<in> set [''is_favorite'', ''is_offline'', ''is_manual'', ''synced_with_supabase'']
      then set_bool col (truthy (cell row index)) book
      else set_plain col (cell row index) book)"

text \<open>
  \<^verbatim>\<open>const book: any = {}\<close>: no property is set. Of the fields below only \<open>is_crafted\<close> is
  left as it is here when the columns are those of the books table.
\<close>

definition empty_book :: LocalBook where
  "empty_book =
     \<lparr>id' = [], title = [], author = [], content_url = [], cover_image = [],
      narration_url = None, podcast_url = None, content_category = [], current_page = 0,
      total_pages = 0, last_read = None, narration_status = None, podcast_status = None,
      highlighted_words = JNull, difficult_words = JNull, vocab_mastery = JNull,
      read_progress = 0, audio_progress = None, book_language = [], is_favorite = False,
      is_offline = False, synced_with_supabase = False, is_crafted = None, created_at = [],
      updated_at = [], is_manual = False, cache_expiry = [], local_content_path = None,
      local_narration_path = None, local_podcast_path = None\<rparr>"

definition book_of_row :: "string list \<Rightarrow> sqlval list \<Rightarrow> LocalBook" where
  "book_of_row columns row =
     fold (set_column row) (zip columns [0..<length columns]) empty_book"

text \<open>\<open>None\<close> is the \<^verbatim>\<open>undefined\<close> that \<^verbatim>\<open>this.sqlite?.execute(query)\<close> gives on a null handle.\<close>

definition transformQueryResult :: "query_result option \<Rightarrow> LocalBook list" where
  "transformQueryResult result =
     (case result of
        None \<Rightarrow> []
      | Some [] \<Rightarrow> []
      | Some ((columns, rows) # _) \<Rightarrow> map (book_of_row columns) rows)"

definition getBooks :: "world \<Rightarrow> exn + LocalBook list" where
  "getBooks w =
     (case sqlite w of
        None \<Rightarrow> Inr (transformQueryResult None)
      | Some db \<Rightarrow>
          (case select_all db of
             Inl e \<Rightarrow> Inl e
           | Inr result \<Rightarrow> Inr (transformQueryResult (Some result))))"

definition getBook :: "string \<Rightarrow> world \<Rightarrow> exn + LocalBook option" where
  "getBook i w =
     (case sqlite w of
        None \<Rightarrow> Inr (case transformQueryResult None of [] \<Rightarrow> None | b # _ \<Rightarrow> Some b)
      | Some db \<Rightarrow>
          (case select_by_id i db of
             Inl e \<Rightarrow> Inl e
           | Inr result \<Rightarrow>
               Inr (case transformQueryResult (Some result) of [] \<Rightarrow> None | b # _ \<Rightarrow> Some b)))"

text \<open>
  \<^verbatim>\<open>Filesystem.deleteFile\<close> rejects when there is no file at the path; \<^verbatim>\<open>deleteBookFiles\<close>
  catches that and goes on.
\<close>

definition deleteFile :: "string \<Rightarrow> world \<Rightarrow> world" where
  "deleteFile path w = w\<lparr>files := (files w)(path := None)\<rparr>"

definition deleteBookFiles :: "LocalBook \<Rightarrow> world \<Rightarrow> world" where
  "deleteBookFiles book w =
     (let filesToDelete =
            List.map_filter (\<lambda>p. p)
              [local_content_path book, local_narration_path book, local_podcast_path book]
      in fold deleteFile filesToDelete w)"

text \<open>
  \<^verbatim>\<open>deleteBook\<close>: the DELETE runs first, the book is looked up after it, and the files are deleted
  when the lookup finds the book.
\<close>

definition deleteBook :: "string \<Rightarrow> world \<Rightarrow> (exn + unit) \<times> world" where
  "deleteBook i w =
     (case (case sqlite w of
              None \<Rightarrow> Inr w
            | Some db \<Rightarrow>
                (case delete_by_id i db of
                   Inl e \<Rightarrow> Inl e
                 | Inr db' \<Rightarrow> Inr (w\<lparr>sqlite := Some db'\<rparr>))) of
        Inl e \<Rightarrow> (Inl e, w)
      | Inr w1 \<Rightarrow>
          (case getBook i w1 of
             Inl e \<Rightarrow> (Inl e, w1)
           | Inr None \<Rightarrow> (Inr (), w1)
           | Inr (Some book) \<Rightarrow> (Inr (), deleteBookFiles book w1)))"

section \<open>BookService: removing a book\<close>

definition removeBook :: "string \<Rightarrow> world \<Rightarrow> (exn + unit) \<times> world" where
  "removeBook bookId w =
     (case getBook bookId w of
        Inl e \<Rightarrow> (Inl e, w)
      | Inr None \<Rightarrow> (Inr (), w)
      | Inr (Some localBook) \<Rightarrow>
          if \<not> is_manual localBook then (Inl (Error ''Cannot remove non-manual books''), w)
          else deleteBook bookId w)"

section \<open>LocalStorageService: start-up\<close>

text \<open>
  What the platform's engine does at start-up. \<open>opens\<close> is \<open>None\<close> when \<^verbatim>\<open>initSqlJs\<close>,
  \<^verbatim>\<open>createConnection\<close> or \<^verbatim>\<open>open\<close> fails, and else the database as it is opened (a
  \<^verbatim>\<open>new initSql.Database()\<close> has no table); \<open>creates\<close> tells whether
  \<^verbatim>\<open>CREATE TABLE IF NOT EXISTS books\<close> goes through.
\<close>

record engine =
  opens :: "database option"
  creates :: bool

definition createTables :: "bool \<Rightarrow> database \<Rightarrow> exn + database" where
  "createTables ok db =
     (if ok then Inr (case db of NoTable \<Rightarrow> Table [] | Table rows \<Rightarrow> Table rows)
      else Inl SqlError)"

text \<open>
  \<^verbatim>\<open>initializeStorage\<close> catches and logs every error. \<^verbatim>\<open>this.sqlite\<close> is assigned before
  \<^verbatim>\<open>createTables\<close> runs, so it stays assigned when \<^verbatim>\<open>createTables\<close> throws.
\<close>

definition initializeStorage :: "engine \<Rightarrow> world \<Rightarrow> world" where
  "initializeStorage e w =
     (case opens e of
        None \<Rightarrow> w
      | Some db \<Rightarrow>
          (case createTables (creates e) db of
             Inl err \<Rightarrow> w\<lparr>sqlite := Some db\<rparr>
           | Inr db' \<Rightarrow> w\<lparr>sqlite := Some db'\<rparr>))"

text \<open>The constructor: \<^verbatim>\<open>sqlite = null\<close>, then \<^verbatim>\<open>initializeStorage()\<close>.\<close>

definition new_LocalStorageService :: "engine \<Rightarrow> (string \<rightharpoonup> string) \<Rightarrow> nat \<Rightarrow> world" where
  "new_LocalStorageService e fs t = initializeStorage e \<lparr>sqlite = None, files = fs, clock = t\<rparr>"

section \<open>Platform functions on strings, dates and bytes\<close>

definition digit :: "nat \<Rightarrow> char" where
  "digit n = ''0123456789'' ! (n mod 10)"

text \<open>The decimal text of a number, as a template literal prints it.\<close>

fun show_nat :: "nat \<Rightarrow> string" where
  "show_nat n = (if n < 10 then [digit n] else show_nat (n div 10) @ [digit (n mod 10)])"

declare show_nat.simps [simp del]

definition pad :: "nat \<Rightarrow> nat \<Rightarrow> string" where
  "pad width n = replicate (width - length (show_nat n)) (CHR ''0'') @ show_nat n"

text \<open>Year, month and day of a day count from 1970-01-01, in the Gregorian calendar.\<close>

definition civil_from_days :: "nat \<Rightarrow> nat \<times> nat \<times> nat" where
  "civil_from_days days =
     (let z = days + 719468;
          era = z div 146097;
          doe = z mod 146097;
          yoe = (doe + doe div 36524 - doe div 1460 - doe div 146096) div 365;
          doy = doe + yoe div 100 - (365 * yoe + yoe div 4);
          mp = (5 * doy + 2) div 153;
          d = doy + 1 - (153 * mp + 2) div 5;
          m = (if mp < 10 then mp + 3 else mp - 9);
          y = yoe + era * 400 + (if m \<le> 2 then 1 else 0)
      in (y, m, d))"

text \<open>
  \<^verbatim>\<open>new Date(ms).toISOString()\<close>: \<^verbatim>\<open>YYYY-MM-DDTHH:mm:ss.sssZ\<close>, and a year past 9999 as
  \<^verbatim>\<open>+YYYYYY\<close>.
\<close>

definition toISOString :: "nat \<Rightarrow> string" where
  "toISOString ms =
     (let (y, m, d) = civil_from_days (ms div 86400000);
          t = ms mod 86400000
      in (if y \<le> 9999 then pad 4 y else CHR ''+'' # pad 6 y) @ ''-'' @ pad 2 m @ ''-'' @ pad 2 d
         @ ''T'' @ pad 2 (t div 3600000) @ '':'' @ pad 2 (t div 60000 mod 60) @ '':''
         @ pad 2 (t div 1000 mod 60) @ ''.'' @ pad 3 (t mod 1000) @ ''Z'')"

text \<open>\<^verbatim>\<open>s.includes(marker)\<close>\<close>

fun includes_str :: "string \<Rightarrow> string \<Rightarrow> bool" where
  "includes_str [] marker = (marker = [])"
| "includes_str (c # s) marker = (take (length marker) (c # s) = marker \<or> includes_str s marker)"

text \<open>\<^verbatim>\<open>s.split(separator)\<close> for a separator that is not empty.\<close>

function split :: "string \<Rightarrow> string \<Rightarrow> string list" where
  "split s separator =
     (if s = [] \<or> separator = [] then [s]
      else if take (length separator) s = separator
      then [] # split (drop (length separator) s) separator
      else (case split (tl s) separator of
              [] \<Rightarrow> [[hd s]]
            | piece # pieces \<Rightarrow> (hd s # piece) # pieces))"
  by pat_completeness auto
termination
  by (relation "measure (\<lambda>(s, separator). length s)") auto

declare split.simps [simp del]

text \<open>
  \<^verbatim>\<open>pieces[i]\<close>. Past the end JavaScript gives \<^verbatim>\<open>undefined\<close>, here the empty string;
  \<^verbatim>\<open>cacheFile\<close> asks for the second piece only of a string that includes the separator, and
  such a string has two pieces at least.
\<close>

definition piece :: "string list \<Rightarrow> nat \<Rightarrow> string" where
  "piece pieces i = (if i < length pieces then pieces ! i else [])"

text \<open>A \<^verbatim>\<open>Blob\<close>: its \<^verbatim>\<open>type\<close> and its bytes.\<close>

record blob =
  btype :: string
  bytes :: "8 word list"

definition base64_alphabet :: string where
  "base64_alphabet = ''ABCDEFGHIJKLMNOPQRSTUVWXYZabcdefghijklmnopqrstuvwxyz0123456789+/''"

definition base64_char :: "nat \<Rightarrow> char" where
  "base64_char n = base64_alphabet ! (n mod 64)"

fun index_of :: "char \<Rightarrow> string \<Rightarrow> nat option" where
  "index_of c [] = None"
| "index_of c (x # xs) = (if c = x then Some 0 else map_option Suc (index_of c xs))"

text \<open>Base64 of RFC 4648, with padding: three bytes give four characters.\<close>

fun base64_encode :: "8 word list \<Rightarrow> string" where
  "base64_encode [] = []"
| "base64_encode [a] =
     [base64_char (unat a div 4), base64_char (unat a mod 4 * 16), CHR ''='', CHR ''='']"
| "base64_encode [a, b] =
     [base64_char (unat a div 4), base64_char (unat a mod 4 * 16 + unat b div 16),
      base64_char (unat b mod 16 * 4), CHR ''='']"
| "base64_encode (a # b # c # rest) =
     [base64_char (unat a div 4), base64_char (unat a mod 4 * 16 + unat b div 16),
      base64_char (unat b mod 16 * 4 + unat c div 64), base64_char (unat c mod 64)]
     @ base64_encode rest"

text \<open>
  The decoder rejects (\<open>None\<close>) a text that is not base64. The decoder of a browser also
  skips white space and accepts a text without padding; no encoder writes either.
\<close>

fun base64_decode :: "string \<Rightarrow> 8 word list option" where
  "base64_decode [] = Some []"
| "base64_decode (c1 # c2 # c3 # c4 # rest) =
     (case (index_of c1 base64_alphabet, index_of c2 base64_alphabet) of
        (Some s1, Some s2) \<Rightarrow>
          (if rest = [] \<and> c3 = CHR ''='' \<and> c4 = CHR ''=''
           then (if s2 mod 16 = 0 then Some [of_nat (s1 * 4 + s2 div 16)] else None)
           else
             (case index_of c3 base64_alphabet of
                Some s3 \<Rightarrow>
                  (if rest = [] \<and> c4 = CHR ''=''
                   then (if s3 mod 4 = 0
                         then Some [of_nat (s1 * 4 + s2 div 16), of_nat (s2 mod 16 * 16 + s3 div 4)]
                         else None)
                   else
                     (case (index_of c4 base64_alphabet, base64_decode rest) of
                        (Some s4, Some bs) \<Rightarrow>
                          Some (of_nat (s1 * 4 + s2 div 16) # of_nat (s2 mod 16 * 16 + s3 div 4)
                                # of_nat (s3 mod 4 * 64 + s4) # bs)
                      | _ \<Rightarrow> None))
              | None \<Rightarrow> None))
      | _ \<Rightarrow> None)"
| "base64_decode _ = None"

text \<open>
  \<^verbatim>\<open>FileReader.readAsDataURL\<close>: \<^verbatim>\<open>data:<type>;base64,<base64 of the bytes>\<close>, with
  \<^verbatim>\<open>application/octet-stream\<close> for a blob without type.
\<close>

definition readAsDataURL :: "blob \<Rightarrow> string" where
  "readAsDataURL b =
     ''data:'' @ (if btype b = [] then ''application/octet-stream'' else btype b)
     @ '';base64,'' @ base64_encode (bytes b)"

section \<open>What the services find outside\<close>

text \<open>The \<^verbatim>\<open>{ data, error }\<close> that the Supabase client resolves to; it does not throw.\<close>

record select_result =
  data :: "SupabaseBook list option"
  error :: "string option"

text \<open>
  \<open>onLine\<close> is \<^verbatim>\<open>navigator.onLine\<close>; \<open>select_books\<close> is the answer to
  \<^verbatim>\<open>supabase.from('books').select('*').order(...)\<close>; \<open>update_progress\<close> is the \<^verbatim>\<open>error\<close> of
  \<^verbatim>\<open>supabase.from('books').update({ read_progress }).eq('id', bookId)\<close>; \<open>fetch\<close> gives, for
  a url, the milliseconds the request takes and the blob of the response, or \<open>None\<close> when
  \<^verbatim>\<open>fetch\<close> rejects. The clock moves with the asset requests only.
\<close>

record env =
  onLine :: bool
  select_books :: select_result
  update_progress :: "string \<Rightarrow> int \<Rightarrow> string option"
  fetch :: "string \<Rightarrow> nat \<times> blob option"

section \<open>LocalStorageService: the Blob Cache\<close>

text \<open>
  \<^verbatim>\<open>cacheFile\<close>. \<^verbatim>\<open>response.ok\<close> is not looked at. \<^verbatim>\<open>Filesystem.writeFile\<close> puts the text at
  the path, over what was there.
\<close>

definition cacheFile :: "env \<Rightarrow> string \<Rightarrow> string \<Rightarrow> world \<Rightarrow> (exn + string) \<times> world" where
  "cacheFile e fileUrl fileType w =
     (let w1 = w\<lparr>clock := clock w + fst (fetch e fileUrl)\<rparr> in
      case snd (fetch e fileUrl) of
        None \<Rightarrow> (Inl FetchError, w1)
      | Some b \<Rightarrow>
          (let fileName = show_nat (clock w1) @ ''_'' @ fileType;
               path = ''cache/'' @ fileName;
               base64String = readAsDataURL b;
               base64Content =
                 (if includes_str base64String ''base64,''
                  then piece (split base64String ''base64,'') 1
                  else base64String)
           in (Inr path, w1\<lparr>files := (files w1)(path \<mapsto> base64Content)\<rparr>)))"

text \<open>
  \<^verbatim>\<open>readCachedFile\<close>, on the string that \<^verbatim>\<open>Filesystem.readFile\<close> returns:
  \<^verbatim>\<open>fetch('data:application/epub+zip;base64,' + data)\<close> decodes the base64 text after the comma
  and rejects when it is not base64.
\<close>

definition readCachedFile :: "string \<Rightarrow> world \<Rightarrow> exn + blob" where
  "readCachedFile path w =
     (case files w path of
        None \<Rightarrow> Inl FileError
      | Some d \<Rightarrow>
          (case base64_decode d of
             None \<Rightarrow> Inl FetchError
           | Some bs \<Rightarrow> Inr \<lparr>btype = ''application/epub+zip'', bytes = bs\<rparr>))"

section \<open>BookService\<close>

definition CACHE_DURATION :: nat where
  "CACHE_DURATION = 7 * 24 * 60 * 60 * 1000"

text \<open>\<^verbatim>\<open>localBook?.path || null\<close>: the empty string is falsy.\<close>

definition or_null :: "string option \<Rightarrow> string option" where
  "or_null p = (case p of None \<Rightarrow> None | Some s \<Rightarrow> if s = [] then None else Some s)"

definition is_set :: "string option \<Rightarrow> bool" where
  "is_set p = (or_null p \<noteq> None)"

text \<open>\<^verbatim>\<open>localBook?.field\<close>\<close>

definition opt_field :: "(LocalBook \<Rightarrow> string option) \<Rightarrow> LocalBook option \<Rightarrow> string option" where
  "opt_field field localBook = (case localBook of None \<Rightarrow> None | Some b \<Rightarrow> field b)"

text \<open>Sequencing of two awaited steps: an exception of the first skips the second.\<close>

definition and_then ::
  "(world \<Rightarrow> (exn + 'a) \<times> world) \<Rightarrow> ('a \<Rightarrow> world \<Rightarrow> (exn + 'b) \<times> world)
   \<Rightarrow> world \<Rightarrow> (exn + 'b) \<times> world" where
  "and_then step next w =
     (case step w of (Inl err, w1) \<Rightarrow> (Inl err, w1) | (Inr x, w1) \<Rightarrow> next x w1)"

text \<open>The object literal \<^verbatim>\<open>newLocalBook\<close> of \<^verbatim>\<open>processSupabaseBooks\<close>.\<close>

definition merged :: "SupabaseBook \<Rightarrow> LocalBook option \<Rightarrow> string \<Rightarrow> LocalBook" where
  "merged book localBook cacheExpiry =
     (SupabaseBook.extend book
        (LocalBook.fields False cacheExpiry
           (or_null (opt_field local_content_path localBook))
           (or_null (opt_field local_narration_path localBook))
           (or_null (opt_field local_podcast_path localBook))))
     \<lparr>synced_with_supabase := True\<rparr>"

definition cache_content ::
  "env \<Rightarrow> SupabaseBook \<Rightarrow> LocalBook option \<Rightarrow> LocalBook \<Rightarrow> world \<Rightarrow> (exn + LocalBook) \<times> world" where
  "cache_content e book localBook newLocalBook =
     (if \<not> is_set (opt_field local_content_path localBook)
      then and_then (cacheFile e (content_url book) ''epub'')
             (\<lambda>path w. (Inr (newLocalBook\<lparr>local_content_path := Some path\<rparr>), w))
      else (\<lambda>w. (Inr newLocalBook, w)))"

definition cache_narration ::
  "env \<Rightarrow> SupabaseBook \<Rightarrow> LocalBook option \<Rightarrow> LocalBook \<Rightarrow> world \<Rightarrow> (exn + LocalBook) \<times> world" where
  "cache_narration e book localBook newLocalBook =
     (if is_set (narration_url book) \<and> \<not> is_set (opt_field local_narration_path localBook)
      then and_then (cacheFile e (the (narration_url book)) ''audio'')
             (\<lambda>path w. (Inr (newLocalBook\<lparr>local_narration_path := Some path\<rparr>), w))
      else (\<lambda>w. (Inr newLocalBook, w)))"

definition cache_podcast ::
  "env \<Rightarrow> SupabaseBook \<Rightarrow> LocalBook option \<Rightarrow> LocalBook \<Rightarrow> world \<Rightarrow> (exn + LocalBook) \<times> world" where
  "cache_podcast e book localBook newLocalBook =
     (if is_set (podcast_url book) \<and> \<not> is_set (opt_field local_podcast_path localBook)
      then and_then (cacheFile e (the (podcast_url book)) ''audio'')
             (\<lambda>path w. (Inr (newLocalBook\<lparr>local_podcast_path := Some path\<rparr>), w))
      else (\<lambda>w. (Inr newLocalBook, w)))"

text \<open>The body of the \<^verbatim>\<open>try\<close> in the loop of \<^verbatim>\<open>processSupabaseBooks\<close>, for one remote row.\<close>

definition process_book :: "env \<Rightarrow> SupabaseBook \<Rightarrow> world \<Rightarrow> (exn + LocalBook) \<times> world" where
  "process_book e book w =
     (case getBook (id' book) w of
        Inl err \<Rightarrow> (Inl err, w)
      | Inr localBook \<Rightarrow>
          (let cacheExpiry = toISOString (clock w + CACHE_DURATION);
               newLocalBook = merged book localBook cacheExpiry
           in and_then (cache_content e book localBook newLocalBook)
                (\<lambda>b1. and_then (cache_narration e book localBook b1)
                   (\<lambda>b2. and_then (cache_podcast e book localBook b2)
                      (\<lambda>b3. and_then (saveBook b3) (\<lambda>u w'. (Inr b3, w'))))) w))"

text \<open>The loop: a row whose processing throws is logged and left out.\<close>

fun processSupabaseBooks :: "env \<Rightarrow> SupabaseBook list \<Rightarrow> world \<Rightarrow> LocalBook list \<times> world" where
  "processSupabaseBooks e [] w = ([], w)"
| "processSupabaseBooks e (book # rest) w =
     (case process_book e book w of
        (Inl err, w1) \<Rightarrow> processSupabaseBooks e rest w1
      | (Inr newLocalBook, w1) \<Rightarrow>
          (case processSupabaseBooks e rest w1 of
             (processedBooks, w2) \<Rightarrow> (newLocalBook # processedBooks, w2)))"

text \<open>
  The filter of \<^verbatim>\<open>fetchBooks\<close>:
  \<^verbatim>\<open>book.is_manual || (book.cache_expiry && book.cache_expiry > now)\<close>, the comparison being
  that of strings.
\<close>

definition valid :: "string \<Rightarrow> LocalBook \<Rightarrow> bool" where
  "valid now book = (is_manual book \<or> (cache_expiry book \<noteq> [] \<and> cache_expiry book > now))"

definition fetchBooks :: "env \<Rightarrow> world \<Rightarrow> (exn + LocalBook list) \<times> world" where
  "fetchBooks e w =
     (case getBooks w of
        Inl err \<Rightarrow> (Inl err, w)
      | Inr localBooks \<Rightarrow>
          (let now = toISOString (clock w);
               validBooks = filter (valid now) localBooks
           in if \<not> onLine e then (Inr validBooks, w)
              else if error (select_books e) \<noteq> None then (Inr validBooks, w)
              else
                (case processSupabaseBooks e
                        (case data (select_books e) of None \<Rightarrow> [] | Some bs \<Rightarrow> bs) w of
                   (processedBooks, w1) \<Rightarrow>
                     (let manualBooks = filter is_manual validBooks
                      in (Inr (processedBooks @ manualBooks), w1)))))"

definition updateBookProgress :: "env \<Rightarrow> string \<Rightarrow> int \<Rightarrow> world \<Rightarrow> (exn + unit) \<times> world" where
  "updateBookProgress e bookId progress w =
     (case getBook bookId w of
        Inl err \<Rightarrow> (Inl err, w)
      | Inr localBook \<Rightarrow>
          and_then
            (case localBook of
               None \<Rightarrow> (\<lambda>w0. (Inr (), w0))
             | Some b \<Rightarrow>
                 saveBook (b\<lparr>read_progress := progress, updated_at := toISOString (clock w)\<rparr>))
            (\<lambda>u w1.
               if (case localBook of None \<Rightarrow> False | Some b \<Rightarrow> synced_with_supabase b) \<and> onLine e
               then (case update_progress e bookId progress of
                       Some err \<Rightarrow> (Inr (), w1)
                     | None \<Rightarrow> (Inr (), w1))
               else (Inr (), w1)) w)"

section \<open>Notions the properties are stated with\<close>

text \<open>A sequence of \<^verbatim>\<open>saveBook\<close> calls, each awaited.\<close>

fun saveBooks :: "LocalBook list \<Rightarrow> world \<Rightarrow> (exn + unit) \<times> world" where
  "saveBooks [] w = (Inr (), w)"
| "saveBooks (book # books) w = and_then (saveBook book) (\<lambda>u. saveBooks books) w"

text \<open>The last book of a sequence that has the given id.\<close>

definition last_saved :: "string \<Rightarrow> LocalBook list \<Rightarrow> LocalBook option" where
  "last_saved i books = find (\<lambda>b. id' b = i) (rev books)"

text \<open>A book as the table holds it: all its fields but \<open>is_crafted\<close>.\<close>

definition without_is_crafted :: "LocalBook \<Rightarrow> LocalBook" where
  "without_is_crafted b = b\<lparr>is_crafted := None\<rparr>"

text \<open>Replacement by id in a list of books, the new book last.\<close>

definition upsert :: "LocalBook \<Rightarrow> LocalBook list \<Rightarrow> LocalBook list" where
  "upsert b ys = filter (\<lambda>y. id' y \<noteq> id' b) ys @ [b]"

text \<open>Books and states for the examples.\<close>

definition manual_book :: LocalBook where
  "manual_book =
     empty_book\<lparr>id' := ''manual_1'', title := ''My Book'', is_manual := True,
                 is_crafted := Some True, local_content_path := Some ''cache/1_epub''\<rparr>"

definition synced_book :: LocalBook where
  "synced_book =
     empty_book\<lparr>id' := ''b1'', title := ''Old title'', synced_with_supabase := True,
                 cache_expiry := ''1969-12-31T23:00:00.000Z'',
                 local_content_path := Some ''cache/x''\<rparr>"

definition empty_store :: world where
  "empty_store = \<lparr>sqlite = Some (Table []), files = Map.empty, clock = 0\<rparr>"

definition library :: world where
  "library =
     \<lparr>sqlite = Some (Table [book_values manual_book, book_values synced_book]),
      files = [''cache/1_epub'' \<mapsto> ''QUJD'', ''cache/x'' \<mapsto> ''QUJD''],
      clock = 0\<rparr>"







text \<open>Connectivity, and every url answering with the given blob at once.\<close>

definition served :: "blob \<Rightarrow> env" where
  "served b =
     \<lparr>onLine = True, select_books = \<lparr>data = None, error = None\<rparr>,
      update_progress = (\<lambda>i p. None), fetch = (\<lambda>url. (0, Some b))\<rparr>"

section \<open>The Record Store\<close>

lemma cell_book_values_0: "cell (book_values b) 0 = SqlText (id' b)"
  by (simp add: cell_def book_values_def)

lemma decode_encode:
  "as_string_opt (opt_text s) = s" "as_int_opt (opt_int n) = n"
  "as_string (SqlText t) = t" "as_int (SqlInt k) = k" "truthy (flag b) = b"
  "parse_or_empty (SqlJsonText j) = j"
  by (auto simp: as_string_opt_def opt_text_def as_int_opt_def opt_int_def as_string_def
      as_int_def truthy_def flag_def parse_or_empty_def JSON_parse_def split: option.splits)

lemma book_of_row_values: "book_of_row books_columns (book_values b) = without_is_crafted b"
  unfolding book_of_row_def books_columns_def book_values_def without_is_crafted_def
  by (simp add: decode_encode upt_rec set_column_def cell_def set_json_def set_bool_def
      set_plain_def empty_book_def)

lemma transform_result_set:
  "transformQueryResult (Some (result_set rows)) = map (book_of_row books_columns) rows"
  by (simp add: transformQueryResult_def result_set_def)

lemma getBooks_Table:
  "sqlite w = Some (Table rows) \<Longrightarrow> getBooks w = Inr (map (book_of_row books_columns) rows)"
  by (simp add: getBooks_def select_all_def transform_result_set)

lemma getBooks_None: "sqlite w = None \<Longrightarrow> getBooks w = Inr []"
  by (simp add: getBooks_def transformQueryResult_def)

lemma getBooks_NoTable: "sqlite w = Some NoTable \<Longrightarrow> getBooks w = Inl SqlError"
  by (simp add: getBooks_def select_all_def)

lemma getBook_Table:
  "sqlite w = Some (Table rows) \<Longrightarrow>
   getBook i w = Inr (case filter (\<lambda>row. cell row 0 = SqlText i) rows of
                        [] \<Rightarrow> None | r # _ \<Rightarrow> Some (book_of_row books_columns r))"
  by (simp add: getBook_def select_by_id_def transform_result_set split: list.splits)

lemma getBook_None: "sqlite w = None \<Longrightarrow> getBook i w = Inr None"
  by (simp add: getBook_def transformQueryResult_def)

lemma getBook_NoTable: "sqlite w = Some NoTable \<Longrightarrow> getBook i w = Inl SqlError"
  by (simp add: getBook_def select_by_id_def)

lemma getBook_SomeD:
  assumes "getBook i w = Inr (Some b)"
  obtains rows where "sqlite w = Some (Table rows)"
proof (cases "sqlite w")
  case None
  with assms show ?thesis by (simp add: getBook_None)
next
  case (Some db)
  with assms that show ?thesis by (cases db) (auto simp: getBook_NoTable)
qed

lemma saveBook_Table:
  "sqlite w = Some (Table rows) \<Longrightarrow>
   saveBook b w =
     (Inr (), w\<lparr>sqlite := Some (Table (filter (\<lambda>row. cell row 0 \<noteq> SqlText (id' b)) rows
                                          @ [book_values b]))\<rparr>)"
  by (simp add: saveBook_def insert_or_replace_def cell_book_values_0)


lemma deleteBook_Table:
  "sqlite w = Some (Table rows) \<Longrightarrow>
   deleteBook i w =
     (Inr (), w\<lparr>sqlite := Some (Table (filter (\<lambda>row. cell row 0 \<noteq> SqlText i) rows))\<rparr>)"
  by (simp add: deleteBook_def delete_by_id_def getBook_Table split: list.splits)

lemma library_getBook_manual: "getBook ''manual_1'' library = Inr (Some (without_is_crafted manual_book))"
  by (simp add: getBook_Table [of _ "[book_values manual_book, book_values synced_book]"]
      library_def cell_book_values_0 book_of_row_values manual_book_def synced_book_def empty_book_def)

lemma library_getBook_synced: "getBook ''b1'' library = Inr (Some (without_is_crafted synced_book))"
  by (simp add: getBook_Table [of _ "[book_values manual_book, book_values synced_book]"]
      library_def cell_book_values_0 book_of_row_values manual_book_def synced_book_def empty_book_def)

section \<open>removeBook\<close>

text \<open>
  C1. A manual record that is in the Record Store: \<^verbatim>\<open>removeBook\<close> succeeds and the row is gone,
  but the cached file of the record is still in the Blob Cache. \<^verbatim>\<open>deleteBook\<close> looks the book
  up after its DELETE, finds nothing, and so never calls \<^verbatim>\<open>deleteBookFiles\<close>.
\<close>

theorem removeBook_manual_keeps_file:
  "getBook ''manual_1'' library = Inr (Some (without_is_crafted manual_book))
   \<and> is_manual (without_is_crafted manual_book)
   \<and> local_content_path (without_is_crafted manual_book) = Some ''cache/1_epub''
   \<and> fst (removeBook ''manual_1'' library) = Inr ()
   \<and> getBook ''manual_1'' (snd (removeBook ''manual_1'' library)) = Inr None
   \<and> files (snd (removeBook ''manual_1'' library)) ''cache/1_epub'' = Some ''QUJD''"
proof -
  have l: "sqlite library = Some (Table [book_values manual_book, book_values synced_book])"
    by (simp add: library_def)
  have m: "is_manual (without_is_crafted manual_book)"
    "local_content_path (without_is_crafted manual_book) = Some ''cache/1_epub''"
    by (simp_all add: without_is_crafted_def manual_book_def empty_book_def)
  have r: "removeBook ''manual_1'' library = deleteBook ''manual_1'' library"
    by (simp add: removeBook_def library_getBook_manual m)
  have f: "files library ''cache/1_epub'' = Some ''QUJD''"
    by (simp add: library_def)
  show ?thesis
    by (simp add: library_getBook_manual m r deleteBook_Table [OF l] getBook_Table f
        split: list.splits)
qed

text \<open>In no state does \<^verbatim>\<open>removeBook\<close> take a file out of the Blob Cache.\<close>

theorem removeBook_keeps_files: "files (snd (removeBook bookId w)) = files w"
proof (cases "sqlite w")
  case None
  then show ?thesis by (simp add: removeBook_def getBook_None)
next
  case (Some db)
  show ?thesis
  proof (cases db)
    case NoTable
    with Some show ?thesis by (simp add: removeBook_def getBook_NoTable)
  next
    case (Table rows)
    with Some have t: "sqlite w = Some (Table rows)" by simp
    show ?thesis
      by (simp add: removeBook_def getBook_Table [OF t] deleteBook_Table [OF t] split: list.splits)
  qed
qed

text \<open>
  C2. For a record of the Record Store that is not manual, \<^verbatim>\<open>removeBook\<close> throws the error
  \<^verbatim>\<open>Cannot remove non-manual books\<close> and changes neither the Record Store nor the Blob Cache;
  the outcome differs from that for an id that is not in the store.
\<close>

theorem removeBook_non_manual:
  assumes "getBook bookId w = Inr (Some b)" and "\<not> is_manual b"
  shows "removeBook bookId w = (Inl (Error ''Cannot remove non-manual books''), w)
    \<and> (\<forall>j. getBook j w = Inr None \<longrightarrow> fst (removeBook j w) \<noteq> fst (removeBook bookId w))"
  using assms by (simp add: removeBook_def)

theorem removeBook_non_manual_witness:
  "removeBook ''b1'' library = (Inl (Error ''Cannot remove non-manual books''), library)
   \<and> fst (removeBook ''nobody'' library) \<noteq> fst (removeBook ''b1'' library)"
proof -
  have n: "\<not> is_manual (without_is_crafted synced_book)"
    by (simp add: without_is_crafted_def synced_book_def empty_book_def)
  have a: "getBook ''nobody'' library = Inr None"
    by (simp add: getBook_Table [of _ "[book_values manual_book, book_values synced_book]"]
      library_def cell_book_values_0 manual_book_def synced_book_def empty_book_def)
  show ?thesis
    using removeBook_non_manual [OF library_getBook_synced n] a by blast
qed

text \<open>
  C10. For an id that is not in the Record Store, \<^verbatim>\<open>removeBook\<close> returns without an error and
  changes neither the Record Store nor the Blob Cache.
\<close>

theorem removeBook_absent:
  assumes "getBook bookId w = Inr None"
  shows "removeBook bookId w = (Inr (), w)"
  using assms by (simp add: removeBook_def)

theorem removeBook_absent_witness:
  "getBook ''nobody'' library = Inr None \<and> removeBook ''nobody'' library = (Inr (), library)"
proof -
  have a: "getBook ''nobody'' library = Inr None"
    by (simp add: getBook_Table [of _ "[book_values manual_book, book_values synced_book]"]
      library_def cell_book_values_0 manual_book_def synced_book_def empty_book_def)
  show ?thesis using removeBook_absent [OF a] a by simp
qed

section \<open>Start-up failures\<close>

text \<open>
  C6, as stated, fails: when the engine cannot be opened, \<^verbatim>\<open>getBooks\<close> returns the empty
  sequence, and so it does on a store that started and holds no record.
\<close>

theorem failed_open_lists_as_empty:
  "getBooks (new_LocalStorageService \<lparr>opens = None, creates = False\<rparr> Map.empty 0) = Inr []
   \<and> getBooks (new_LocalStorageService \<lparr>opens = Some NoTable, creates = True\<rparr> Map.empty 0)
       = Inr []"
  by (simp add: new_LocalStorageService_def initializeStorage_def createTables_def
      getBooks_None getBooks_Table)

text \<open>
  C6, amended. When the engine cannot be opened, the failure is caught and logged, the handle
  stays null and \<^verbatim>\<open>getBooks\<close> returns the empty sequence, as on a started store without
  records. \<^verbatim>\<open>getBooks\<close> throws only when the engine opened and the table could not be
  created.
\<close>

theorem getBooks_after_start:
  "getBooks (new_LocalStorageService \<lparr>opens = None, creates = c\<rparr> fs t) = Inr []
   \<and> getBooks (new_LocalStorageService \<lparr>opens = Some NoTable, creates = True\<rparr> fs t) = Inr []
   \<and> getBooks (new_LocalStorageService \<lparr>opens = Some NoTable, creates = False\<rparr> fs t)
       = Inl SqlError"
  by (simp add: new_LocalStorageService_def initializeStorage_def createTables_def
      getBooks_None getBooks_Table getBooks_NoTable)

section \<open>Sequences of upserts\<close>

lemma saveBook_upsert:
  assumes "sqlite w = Some (Table (map book_values ys))"
  shows "saveBook b w = (Inr (), w\<lparr>sqlite := Some (Table (map book_values (upsert b ys)))\<rparr>)"
proof -
  have "filter (\<lambda>row. cell row 0 \<noteq> SqlText (id' b)) (map book_values ys)
        = map book_values (filter (\<lambda>y. id' y \<noteq> id' b) ys)"
    by (simp add: filter_map comp_def cell_book_values_0)
  then show ?thesis
    by (simp add: saveBook_Table [OF assms] upsert_def)
qed

lemma saveBooks_upsert:
  "sqlite w = Some (Table (map book_values ys)) \<Longrightarrow>
   saveBooks bs w = (Inr (), w\<lparr>sqlite := Some (Table (map book_values (fold upsert bs ys)))\<rparr>)"
proof (induction bs arbitrary: ys w)
  case Nil
  then show ?case by simp
next
  case (Cons b bs)
  have "sqlite (w\<lparr>sqlite := Some (Table (map book_values (upsert b ys)))\<rparr>)
        = Some (Table (map book_values (upsert b ys)))"
    by simp
  from Cons.IH [OF this] show ?case
    by (simp add: and_then_def saveBook_upsert [OF Cons.prems])
qed

lemma find_app:
  "find P (xs @ ys) = (case find P xs of None \<Rightarrow> find P ys | Some x \<Rightarrow> Some x)"
  by (induction xs) simp_all

lemma last_saved_Cons:
  "last_saved i (b # bs) =
     (case last_saved i bs of Some x \<Rightarrow> Some x | None \<Rightarrow> if id' b = i then Some b else None)"
  by (simp add: last_saved_def find_app split: option.splits)

lemma ids_fold_upsert: "id' ` set (fold upsert bs ys) = id' ` set ys \<union> id' ` set bs"
  by (induction bs arbitrary: ys) (auto simp: upsert_def)

lemma distinct_upsert: "distinct (map id' ys) \<Longrightarrow> distinct (map id' (upsert b ys))"
  by (auto simp: upsert_def distinct_map_filter)

lemma distinct_fold_upsert:
  "distinct (map id' ys) \<Longrightarrow> distinct (map id' (fold upsert bs ys))"
  by (induction bs arbitrary: ys) (simp_all add: distinct_upsert)

lemma fold_upsert_last:
  "x \<in> set (fold upsert bs ys) \<Longrightarrow>
   last_saved (id' x) bs = Some x \<or> (last_saved (id' x) bs = None \<and> x \<in> set ys)"
proof (induction bs arbitrary: ys)
  case Nil
  then show ?case by (simp add: last_saved_def)
next
  case (Cons b bs)
  from Cons.prems have "x \<in> set (fold upsert bs (upsert b ys))" by simp
  from Cons.IH [OF this] show ?case
    by (auto simp: last_saved_Cons upsert_def)
qed

text \<open>
  What holds of upserts: after a sequence of \<^verbatim>\<open>saveBook\<close> calls on an empty Record Store,
  every call has succeeded and \<^verbatim>\<open>getBooks\<close> lists exactly one record for each id of the
  sequence; it is the last saved value of that id in every field but \<open>is_crafted\<close>, for
  which the table has no column.
\<close>

theorem getBooks_after_saveBooks:
  assumes "sqlite w = Some (Table [])"
  shows "\<exists>xs. fst (saveBooks bs w) = Inr () \<and> getBooks (snd (saveBooks bs w)) = Inr xs
     \<and> distinct (map id' xs) \<and> id' ` set xs = id' ` set bs
     \<and> (\<forall>x \<in> set xs. \<exists>b. last_saved (id' x) bs = Some b \<and> x = without_is_crafted b)"
proof -
  let ?ys = "fold upsert bs []"
  let ?xs = "map without_is_crafted ?ys"
  have ids: "map id' ?xs = map id' ?ys"
    by (simp add: without_is_crafted_def)
  have s: "saveBooks bs w = (Inr (), w\<lparr>sqlite := Some (Table (map book_values ?ys))\<rparr>)"
    using saveBooks_upsert [of w "[]" bs] assms by simp
  have g: "getBooks (snd (saveBooks bs w)) = Inr ?xs"
    by (simp add: s getBooks_Table [of _ "map book_values ?ys"] book_of_row_values comp_def)
  have d: "distinct (map id' ?xs)"
    unfolding ids by (rule distinct_fold_upsert) simp
  have i: "id' ` set ?xs = id' ` set bs"
    using ids_fold_upsert [of bs "[]"] ids by (metis empty_set image_empty set_map sup_bot_left)
  have l: "\<exists>b. last_saved (id' x) bs = Some b \<and> x = without_is_crafted b" if "x \<in> set ?xs" for x
  proof -
    from that obtain y where y: "y \<in> set ?ys" "x = without_is_crafted y" by auto
    then have "id' x = id' y" by (simp add: without_is_crafted_def)
    with fold_upsert_last [OF y(1)] y(2) show ?thesis by auto
  qed
  from s g d i l show ?thesis by (intro exI [of _ ?xs]) auto
qed

theorem getBooks_after_saveBooks_witness:
  "fst (saveBooks [manual_book, synced_book, manual_book\<lparr>title := ''Again''\<rparr>] empty_store) = Inr ()
   \<and> (\<exists>xs. getBooks (snd (saveBooks [manual_book, synced_book, manual_book\<lparr>title := ''Again''\<rparr>]
                             empty_store)) = Inr xs
        \<and> distinct (map id' xs) \<and> id' ` set xs = {''manual_1'', ''b1''})"
proof -
  have e: "sqlite empty_store = Some (Table [])" by (simp add: empty_store_def)
  have "id' ` set [manual_book, synced_book, manual_book\<lparr>title := ''Again''\<rparr>] = {''manual_1'', ''b1''}"
    by (auto simp: manual_book_def synced_book_def empty_book_def)
  with getBooks_after_saveBooks [OF e, of "[manual_book, synced_book, manual_book\<lparr>title := ''Again''\<rparr>]"]
  show ?thesis by auto
qed

text \<open>
  C5. The record that \<^verbatim>\<open>getBooks\<close> lists should be the last value saved for its id. It is
  not: a book saved with \<open>is_crafted = true\<close> on an empty Record Store is listed without
  that property, since \<^verbatim>\<open>saveBook\<close> writes every field of the book but this one.
\<close>

theorem getBooks_loses_is_crafted:
  "getBooks (snd (saveBooks [manual_book] empty_store)) = Inr [without_is_crafted manual_book]
   \<and> last_saved ''manual_1'' [manual_book] = Some manual_book
   \<and> without_is_crafted manual_book \<noteq> manual_book"
proof -
  have e: "sqlite empty_store = Some (Table (map book_values []))" by (simp add: empty_store_def)
  have n: "is_crafted (without_is_crafted manual_book) \<noteq> is_crafted manual_book"
    by (simp add: without_is_crafted_def manual_book_def)
  then have "without_is_crafted manual_book \<noteq> manual_book" by auto
  then show ?thesis
    by (simp add: saveBooks_upsert [OF e] upsert_def getBooks_Table [of _ "[book_values manual_book]"]
        book_of_row_values last_saved_def manual_book_def)
qed

section \<open>Dates\<close>

lemma replicate_small: "replicate 1 c = [c]" "replicate 2 c = [c, c]" "replicate 3 c = [c, c, c]"
  by (simp_all add: numeral_2_eq_2 numeral_3_eq_3)

lemma civil_from_days_0: "civil_from_days 0 = (1970, 1, 1)"
  by (simp add: civil_from_days_def cong: let_weak_cong)

lemma toISOString_0: "toISOString 0 = ''1970-01-01T00:00:00.000Z''"
  by (simp add: toISOString_def civil_from_days_0 pad_def show_nat.simps digit_def
      replicate_small)

section \<open>fetchBooks without the remote catalog\<close>

lemma valid_iff: "valid now b \<longleftrightarrow> is_manual b \<or> cache_expiry b > now"
  by (auto simp: valid_def)

text \<open>
  C4. Without connectivity, \<^verbatim>\<open>fetchBooks\<close> returns exactly the records of the Record Store
  that are manual or have a \<^verbatim>\<open>cache_expiry\<close> later than now (both instants being ISO strings,
  compared as strings), and the Record Store stays as it was: an expired record is left out of
  the answer and is not deleted.
\<close>

theorem fetchBooks_offline:
  assumes "\<not> onLine e" and "getBooks w = Inr localBooks"
  shows "fetchBooks e w =
     (Inr (filter (\<lambda>b. is_manual b \<or> cache_expiry b > toISOString (clock w)) localBooks), w)"
proof -
  have "valid now = (\<lambda>b. is_manual b \<or> cache_expiry b > now)" for now
    by (rule ext) (rule valid_iff)
  then show ?thesis using assms by (simp add: fetchBooks_def)
qed

theorem fetchBooks_offline_witness:
  "fetchBooks \<lparr>onLine = False, select_books = \<lparr>data = None, error = None\<rparr>,
               update_progress = (\<lambda>i p. None), fetch = (\<lambda>u. (0, None))\<rparr> library
   = (Inr [without_is_crafted manual_book], library)"
proof -
  have g: "getBooks library = Inr [without_is_crafted manual_book, without_is_crafted synced_book]"
    by (simp add: getBooks_Table [of _ "[book_values manual_book, book_values synced_book]"]
        library_def book_of_row_values)
  have c: "clock library = 0" by (simp add: library_def)
  have m: "is_manual (without_is_crafted manual_book)"
    by (simp add: without_is_crafted_def manual_book_def empty_book_def)
  have s: "\<not> is_manual (without_is_crafted synced_book)"
    "cache_expiry (without_is_crafted synced_book) = ''1969-12-31T23:00:00.000Z''"
    by (simp_all add: without_is_crafted_def synced_book_def empty_book_def)
  have x: "\<not> ''1970-01-01T00:00:00.000Z'' < ''1969-12-31T23:00:00.000Z''"
    by simp
  show ?thesis
    using fetchBooks_offline [of "\<lparr>onLine = False, select_books = \<lparr>data = None, error = None\<rparr>,
               update_progress = (\<lambda>i p. None), fetch = (\<lambda>u. (0, None))\<rparr>" library, OF _ g]
    by (simp add: c toISOString_0 m s x)
qed

text \<open>
  C7. With connectivity, when the query of the remote catalog answers with an error,
  \<^verbatim>\<open>fetchBooks\<close> returns the valid records of the Record Store, which is its answer without
  connectivity, and does not throw.
\<close>

theorem fetchBooks_remote_error:
  assumes "onLine e" and "error (select_books e) = Some msg" and "getBooks w = Inr localBooks"
  shows "fetchBooks e w = (Inr (filter (valid (toISOString (clock w))) localBooks), w)
     \<and> fetchBooks e w = fetchBooks (e\<lparr>onLine := False\<rparr>) w"
  using assms by (simp add: fetchBooks_def)

theorem fetchBooks_remote_error_witness:
  "fetchBooks \<lparr>onLine = True, select_books = \<lparr>data = None, error = Some ''Failed to fetch''\<rparr>,
               update_progress = (\<lambda>i p. None), fetch = (\<lambda>u. (0, None))\<rparr> library
   = (Inr [without_is_crafted manual_book], library)"
proof -
  have g: "getBooks library = Inr [without_is_crafted manual_book, without_is_crafted synced_book]"
    by (simp add: getBooks_Table [of _ "[book_values manual_book, book_values synced_book]"]
        library_def book_of_row_values)
  have c: "clock library = 0" by (simp add: library_def)
  have m: "is_manual (without_is_crafted manual_book)"
    by (simp add: without_is_crafted_def manual_book_def empty_book_def)
  have s: "\<not> is_manual (without_is_crafted synced_book)"
    "cache_expiry (without_is_crafted synced_book) = ''1969-12-31T23:00:00.000Z''"
    by (simp_all add: without_is_crafted_def synced_book_def empty_book_def)
  have x: "\<not> ''1970-01-01T00:00:00.000Z'' < ''1969-12-31T23:00:00.000Z''"
    by simp
  show ?thesis
    using fetchBooks_remote_error [of "\<lparr>onLine = True,
               select_books = \<lparr>data = None, error = Some ''Failed to fetch''\<rparr>,
               update_progress = (\<lambda>i p. None), fetch = (\<lambda>u. (0, None))\<rparr>"
               "''Failed to fetch''" library, OF _ _ g]
    by (simp add: c toISOString_0 m s x valid_def)
qed

section \<open>Lookups after a write\<close>

lemma book_of_row_id: "id' (book_of_row books_columns r) = as_string (cell r 0)"
  unfolding book_of_row_def books_columns_def
  by (simp add: upt_rec set_column_def set_json_def set_bool_def set_plain_def empty_book_def)

lemma book_of_row_is_crafted: "is_crafted (book_of_row books_columns r) = None"
  unfolding book_of_row_def books_columns_def
  by (simp add: upt_rec set_column_def set_json_def set_bool_def set_plain_def empty_book_def)

lemma getBook_found:
  assumes "getBook i w = Inr (Some b)"
  shows "id' b = i" and "is_crafted b = None"
proof -
  from assms obtain rows where t: "sqlite w = Some (Table rows)" by (rule getBook_SomeD)
  with assms obtain r rs where
    f: "filter (\<lambda>row. cell row 0 = SqlText i) rows = r # rs" and b: "b = book_of_row books_columns r"
    by (auto simp: getBook_Table split: list.splits)
  from f have "cell r 0 = SqlText i" by (metis (mono_tags, lifting) Cons_eq_filterD)
  then show "id' b = i" by (simp add: b book_of_row_id as_string_def)
  show "is_crafted b = None" by (simp add: b book_of_row_is_crafted)
qed

lemma without_is_crafted_idem: "is_crafted b = None \<Longrightarrow> without_is_crafted b = b"
  by (simp add: without_is_crafted_def)


lemma getBook_saveBook_same:
  assumes "sqlite w = Some (Table rows)"
  shows "saveBook b w = (Inr (), snd (saveBook b w))"
    and "getBook (id' b) (snd (saveBook b w)) = Inr (Some (without_is_crafted b))"
proof -
  let ?rows = "filter (\<lambda>row. cell row 0 \<noteq> SqlText (id' b)) rows @ [book_values b]"
  have "filter (\<lambda>row. cell row 0 = SqlText (id' b)) ?rows = [book_values b]"
    by (simp add: cell_book_values_0)
  then show "getBook (id' b) (snd (saveBook b w)) = Inr (Some (without_is_crafted b))"
    by (simp add: saveBook_Table [OF assms] getBook_Table [of _ ?rows] book_of_row_values)
  show "saveBook b w = (Inr (), snd (saveBook b w))"
    by (simp add: saveBook_Table [OF assms])
qed


section \<open>updateBookProgress\<close>

text \<open>
  C8. For a record of the Record Store, \<^verbatim>\<open>updateBookProgress\<close> stores the new
  \<^verbatim>\<open>read_progress\<close> and \<^verbatim>\<open>updated_at\<close> and returns without an error, whatever the connectivity
  and the answer of the remote update are: the outcome is the same in every environment, so a
  remote failure undoes nothing.
\<close>

theorem updateBookProgress_local_first:
  assumes "getBook bookId w = Inr (Some b)"
  shows "fst (updateBookProgress e bookId progress w) = Inr ()
     \<and> getBook bookId (snd (updateBookProgress e bookId progress w))
         = Inr (Some (b\<lparr>read_progress := progress, updated_at := toISOString (clock w)\<rparr>))
     \<and> files (snd (updateBookProgress e bookId progress w)) = files w
     \<and> updateBookProgress e bookId progress w = updateBookProgress e' bookId progress w"
proof -
  let ?b = "b\<lparr>read_progress := progress, updated_at := toISOString (clock w)\<rparr>"
  from assms obtain rows where t: "sqlite w = Some (Table rows)" by (rule getBook_SomeD)
  have i: "id' ?b = bookId" and "is_crafted ?b = None"
    using getBook_found [OF assms] by simp_all
  then have c: "without_is_crafted ?b = ?b"
    by (intro without_is_crafted_idem)
  have u: "updateBookProgress x bookId progress w = (Inr (), snd (saveBook ?b w))" for x
    using assms getBook_saveBook_same(1) [OF t, of ?b]
    by (cases "saveBook ?b w") (auto simp: updateBookProgress_def and_then_def split: option.splits)
  have g: "getBook bookId (snd (saveBook ?b w)) = Inr (Some ?b)"
    using getBook_saveBook_same(2) [OF t, of ?b] i c by simp
  have f: "files (snd (saveBook ?b w)) = files w"
    by (simp add: saveBook_Table [OF t])
  show ?thesis by (simp add: u g f)
qed

theorem updateBookProgress_local_first_witness:
  "fst (updateBookProgress \<lparr>onLine = False, select_books = \<lparr>data = None, error = None\<rparr>,
          update_progress = (\<lambda>i p. Some ''Failed to fetch''), fetch = (\<lambda>u. (0, None))\<rparr>
          ''b1'' 42 library) = Inr ()
   \<and> getBook ''b1'' (snd (updateBookProgress \<lparr>onLine = False,
          select_books = \<lparr>data = None, error = None\<rparr>,
          update_progress = (\<lambda>i p. Some ''Failed to fetch''), fetch = (\<lambda>u. (0, None))\<rparr>
          ''b1'' 42 library))
       = Inr (Some ((without_is_crafted synced_book)
                      \<lparr>read_progress := 42, updated_at := toISOString (clock library)\<rparr>))"
  using updateBookProgress_local_first [OF library_getBook_synced] by blast

section \<open>Merging a remote row\<close>
































section \<open>Base64\<close>

lemma index_of_nth: "distinct xs \<Longrightarrow> n < length xs \<Longrightarrow> index_of (xs ! n) xs = Some n"
proof (induction xs arbitrary: n)
  case Nil
  then show ?case by simp
next
  case (Cons x xs)
  show ?case
  proof (cases n)
    case 0
    then show ?thesis by simp
  next
    case (Suc k)
    with Cons.prems have "xs ! k \<noteq> x" and "index_of (xs ! k) xs = Some k"
      using Cons.IH [of k] by auto
    with Suc show ?thesis by simp
  qed
qed

lemma base64_alphabet_facts:
  "length base64_alphabet = 64" "distinct base64_alphabet"
  "CHR ''='' \<notin> set base64_alphabet" "CHR '','' \<notin> set base64_alphabet"
  by (simp_all add: base64_alphabet_def)

lemma base64_char_in: "base64_char n \<in> set base64_alphabet"
  by (simp add: base64_char_def base64_alphabet_facts)

lemma index_of_base64_char: "index_of (base64_char n) base64_alphabet = Some (n mod 64)"
  unfolding base64_char_def
  by (rule index_of_nth) (simp_all add: base64_alphabet_facts)

lemma base64_char_neq: "base64_char n \<noteq> CHR ''=''" "base64_char n \<noteq> CHR '',''"
  using base64_char_in [of n] base64_alphabet_facts(3,4) by auto

lemma sextets:
  fixes x y z :: nat
  assumes "x < 256" and "y < 256" and "z < 256"
  shows "(x div 4) mod 64 * 4 + (x mod 4 * 16 + y div 16) mod 64 div 16 = x"
    and "(x mod 4 * 16 + y div 16) mod 64 mod 16 * 16 + (y mod 16 * 4 + z div 64) mod 64 div 4 = y"
    and "(y mod 16 * 4 + z div 64) mod 64 mod 4 * 64 + z mod 64 mod 64 = z"
    and "(x mod 4 * 16) mod 64 mod 16 = 0"
    and "(x div 4) mod 64 * 4 + (x mod 4 * 16) mod 64 div 16 = x"
    and "(y mod 16 * 4) mod 64 mod 4 = 0"
    and "(x mod 4 * 16 + y div 16) mod 64 mod 16 * 16 + (y mod 16 * 4) mod 64 div 4 = y"
proof -
  have b: "x div 4 < 64" "y div 16 < 16" "z div 64 < 4" using assms by auto
  have m: "x mod 4 < 4" "y mod 16 < 16" by simp_all
  have s2: "x mod 4 * 16 + y div 16 < 64" using b(2) m(1) by linarith
  have s3: "y mod 16 * 4 + z div 64 < 64" using b(3) m(2) by linarith
  have p2: "x mod 4 * 16 < 64" using m(1) by linarith
  have p3: "y mod 16 * 4 < 64" using m(2) by linarith
  have d2: "(x mod 4 * 16 + y div 16) div 16 = x mod 4" using b(2) by simp
  have r2: "(x mod 4 * 16 + y div 16) mod 16 = y div 16" using b(2) by simp
  have d3: "(y mod 16 * 4 + z div 64) div 4 = y mod 16" using b(3) by simp
  have r3: "(y mod 16 * 4 + z div 64) mod 4 = z div 64" using b(3) by simp
  show "(x div 4) mod 64 * 4 + (x mod 4 * 16 + y div 16) mod 64 div 16 = x"
    using b(1) s2 by (simp add: d2)
  show "(x mod 4 * 16 + y div 16) mod 64 mod 16 * 16 + (y mod 16 * 4 + z div 64) mod 64 div 4 = y"
    using s2 s3 b(2) by (simp add: r2 d3)
  show "(y mod 16 * 4 + z div 64) mod 64 mod 4 * 64 + z mod 64 mod 64 = z"
    using s3 b(3) by (simp add: r3)
  show "(x mod 4 * 16) mod 64 mod 16 = 0"
    using p2 by simp
  show "(x div 4) mod 64 * 4 + (x mod 4 * 16) mod 64 div 16 = x"
    using b(1) p2 by simp
  show "(y mod 16 * 4) mod 64 mod 4 = 0"
    using p3 by simp
  show "(x mod 4 * 16 + y div 16) mod 64 mod 16 * 16 + (y mod 16 * 4) mod 64 div 4 = y"
    using s2 p3 b(2) by (simp add: r2)
qed

lemma base64_decode_encode: "base64_decode (base64_encode bs) = Some bs"
proof (induction bs rule: base64_encode.induct)
  case 1
  then show ?case by simp
next
  case (2 a)
  have "unat a < 256" using unsigned_less [of a] by simp
  then show ?case
    by (simp add: index_of_base64_char sextets)
next
  case (3 a b)
  have "unat a < 256" "unat b < 256" using unsigned_less [of a] unsigned_less [of b] by simp_all
  then show ?case
    by (simp add: index_of_base64_char base64_char_neq sextets)
next
  case (4 a b c rest)
  have "unat a < 256" "unat b < 256" "unat c < 256"
    using unsigned_less [of a] unsigned_less [of b] unsigned_less [of c] by simp_all
  with 4 show ?case
    by (simp add: index_of_base64_char base64_char_neq sextets)
qed

lemma base64_encode_chars: "set (base64_encode bs) \<subseteq> insert (CHR ''='') (set base64_alphabet)"
  by (induction bs rule: base64_encode.induct) (auto simp: base64_char_in)

lemma base64_encode_no_comma: "CHR '','' \<notin> set (base64_encode bs)"
  using base64_encode_chars [of bs] base64_alphabet_facts(4) by auto

section \<open>The data URL\<close>

lemma includes_str_last:
  assumes "includes_str s m" and "m \<noteq> []"
  shows "last m \<in> set s"
  using assms(1)
proof (induction s)
  case Nil
  with assms(2) show ?case by simp
next
  case (Cons c s)
  show ?case
  proof (cases "take (length m) (c # s) = m")
    case True
    from assms(2) have "last m \<in> set m" by simp
    with True have "last m \<in> set (take (length m) (c # s))" by simp
    then show ?thesis by (rule in_set_takeD)
  next
    case False
    with Cons show ?thesis by simp
  qed
qed

lemma includes_str_append: "includes_str (pre @ m @ rest) m"
proof (induction pre)
  case Nil
  show ?case
  proof (cases "m @ rest")
    case Nil
    then show ?thesis by simp
  next
    case (Cons a list)
    have "take (length m) (m @ rest) = m" by simp
    with Cons show ?thesis by simp
  qed
next
  case (Cons c pre)
  then show ?case by simp
qed

lemma split_without:
  assumes "m \<noteq> []"
  shows "\<not> includes_str s m \<Longrightarrow> split s m = [s]"
proof (induction s)
  case Nil
  then show ?case by (simp add: split.simps)
next
  case (Cons c s)
  then have "take (length m) (c # s) \<noteq> m" and "split s m = [s]" by simp_all
  with assms show ?case by (subst split.simps) simp
qed

lemma no_early_match:
  assumes "c \<notin> set pre" and "pre \<noteq> []" and "c \<notin> set front"
  shows "take (length (front @ [c])) (pre @ (front @ [c]) @ rest) \<noteq> front @ [c]"
proof
  let ?m = "front @ [c]"
  let ?s = "pre @ ?m @ rest"
  let ?k = "length front"
  assume e: "take (length ?m) ?s = ?m"
  have "take (length ?m) ?s ! ?k = ?s ! ?k" by (intro nth_take) simp
  with e have c: "?s ! ?k = c" by simp
  show False
  proof (cases "?k < length pre")
    case True
    then have "?s ! ?k = pre ! ?k" by (simp add: nth_append)
    with c True assms(1) show False by (metis nth_mem)
  next
    case False
    let ?j = "?k - length pre"
    from False assms(2) have j: "?j < ?k" by (cases pre) auto
    from False have "?s ! ?k = (?m @ rest) ! ?j" by (simp add: nth_append)
    also from j have "\<dots> = front ! ?j" by (simp add: nth_append)
    finally have "front ! ?j = c" using c by simp
    with j assms(3) show False by (metis nth_mem)
  qed
qed

lemma split_at_marker:
  assumes "c \<notin> set front"
  shows "c \<notin> set pre \<Longrightarrow>
         split (pre @ (front @ [c]) @ rest) (front @ [c]) = pre # split rest (front @ [c])"
proof (induction pre)
  case Nil
  show ?case by (subst split.simps) simp
next
  case (Cons x pre)
  then have "split (pre @ (front @ [c]) @ rest) (front @ [c]) = pre # split rest (front @ [c])"
    by simp
  moreover have "take (length (front @ [c])) ((x # pre) @ (front @ [c]) @ rest) \<noteq> front @ [c]"
    by (rule no_early_match) (use Cons.prems assms in simp_all)
  ultimately show ?case by (subst split.simps) simp
qed

lemma stripped_data_url:
  assumes "CHR '','' \<notin> set (btype b)"
  shows "includes_str (readAsDataURL b) ''base64,''"
    and "piece (split (readAsDataURL b) ''base64,'') 1 = base64_encode (bytes b)"
proof -
  let ?pre = "''data:'' @ (if btype b = [] then ''application/octet-stream'' else btype b) @ '';''"
  let ?enc = "base64_encode (bytes b)"
  have m: "''base64,'' = ''base64'' @ [CHR '','']" by simp
  have r: "readAsDataURL b = ?pre @ (''base64'' @ [CHR '','']) @ ?enc"
    by (simp add: readAsDataURL_def)
  have n: "CHR '','' \<notin> set ?pre" using assms by simp
  have f: "CHR '','' \<notin> set ''base64''" by simp
  have "\<not> includes_str ?enc (''base64'' @ [CHR '',''])"
    using includes_str_last [of ?enc "''base64'' @ [CHR '','']"] base64_encode_no_comma [of "bytes b"]
    by auto
  then have "split ?enc (''base64'' @ [CHR '','']) = [?enc]"
    by (intro split_without) simp_all
  with split_at_marker [OF f n, of ?enc]
  show "piece (split (readAsDataURL b) ''base64,'') 1 = base64_encode (bytes b)"
    unfolding r m by (simp add: piece_def)
  show "includes_str (readAsDataURL b) ''base64,''"
    unfolding r m by (rule includes_str_append)
qed

text \<open>
  What holds of the round trip: when the content type of the response has no comma,
  \<^verbatim>\<open>cacheFile\<close> succeeds and \<^verbatim>\<open>readCachedFile\<close> of the path it returns gives back the bytes of
  the response, whatever they are.
\<close>

theorem readCachedFile_after_cacheFile:
  assumes "snd (fetch e url) = Some b" and "CHR '','' \<notin> set (btype b)"
  shows "\<exists>path w1. cacheFile e url tag w = (Inr path, w1)
     \<and> readCachedFile path w1 = Inr \<lparr>btype = ''application/epub+zip'', bytes = bytes b\<rparr>"
  using assms(1) stripped_data_url [OF assms(2)]
  by (simp add: cacheFile_def Let_def readCachedFile_def base64_decode_encode)

theorem readCachedFile_after_cacheFile_witness:
  "\<exists>path w1.
     cacheFile (served \<lparr>btype = ''application/epub+zip'', bytes = [65, 66, 67]\<rparr>)
       ''https://books/b1.epub'' ''epub'' empty_store = (Inr path, w1)
     \<and> readCachedFile path w1 = Inr \<lparr>btype = ''application/epub+zip'', bytes = [65, 66, 67]\<rparr>"
  using readCachedFile_after_cacheFile
    [of "served \<lparr>btype = ''application/epub+zip'', bytes = [65, 66, 67]\<rparr>"
        "''https://books/b1.epub''" "\<lparr>btype = ''application/epub+zip'', bytes = [65, 66, 67]\<rparr>"
        "''epub''" empty_store]
  by (simp add: served_def)



end
